theory Spec2Isabelle
  imports Main
begin

section \<open>Primitive value types\<close>

text \<open>
  Modelled from the spec: the value types \<open>Tag\<close>, \<open>Link\<close>, \<open>DateString\<close> and
  \<open>Image\<close> are imported by the sources (\<open>./Tag\<close>, \<open>./Link\<close>, \<open>./Date\<close>, \<open>./Image\<close>)
  but their declarations are not among them. The spec's data model gives a tag a name,
  a link a url and an optional label, an image a source path and an optional caption,
  and a date its text. The field names \<open>url\<close>, \<open>srcPath\<close> and \<open>caption\<close> are the ones
  the object literals of the sources use. An optional field (\<open>f?: T\<close>) is a
  \<open>T option\<close>, \<open>None\<close> standing for the omitted field.

  A string is the list of the bytes of its UTF-8 encoding; a character outside ASCII
  is written byte by byte.
\<close>

type_synonym DateString = string

record Tag =
  name :: string

record Link =
  url :: string
  label :: "string option"

record Image =
  srcPath :: string
  caption :: "string option"

section \<open>Publications (src/types/Publication.ts)\<close>

text \<open>The enum \<open>Publisher\<close>, member by member, and the string value of each member.\<close>

datatype Publisher =
    AITimeJournal
  | CodeProject
  | DOU
  | DataDrivenInvestor
  | GeeksForGeeks
  | HackerNews
  | HackerNoon
  | HowIGotJob
  | ITNEXT
  | JavaScriptInPlainEnglish
  | KDnuggets
  | Newline
  | TechCrunch
  | TowardsDataScience



text \<open>
  The type \<open>Publication\<close>: \<open>tags\<close> is its only optional field. The type of the
  publisher is a parameter of the record, so that the two readings of the declaration
  have one shape. For the type checker the field is a member of the enum
  (\<open>Publication\<close>). In the running program the annotation is erased and a member of a
  string enum is its string: the field of the object is a string
  (\<open>Publication_object\<close>).
\<close>

record 'p Publication_fields =
  title :: string
  summary :: "string list"
  link :: Link
  date :: DateString
  publisher :: 'p
  tags :: "Tag list option"







section \<open>The profile registry (the two \<open>profile\<close> constants)\<close>

text \<open>
  Modelled from the spec: the type \<open>Profile\<close> (\<open>../types/Profile\<close>) is imported by both
  registries and declared in neither. The spec's data model lists its fields and says
  that \<open>firstName\<close> is required and every other field is optional. A location is a
  record with a name, as the literal of the first registry has it.

  An object literal leaves an optional field out, sets it to \<open>null\<close>, or sets it to a
  value. What the registries are measured on is which of the three they do, so an
  optional field of a profile is one of the three here.
\<close>

datatype 'a optional = Omitted | IsNull | Present 'a

record Location =
  name :: string

record Profile =
  firstName :: string
  lastName :: "string optional"
  position :: "string optional"
  summary :: "string list optional"
  avatar :: "Image optional"
  location :: "Location optional"
  tags :: "Tag list optional"
  socialLinks :: "Link list optional"

text \<open>
  The first registry (src/unnamed/part_000). The list \<open>socialLinks\<close> it refers to is
  imported from \<open>./socialLinks\<close>, which is not among the sources: it is the parameter
  \<open>links\<close>.
\<close>

definition profile_part_000 :: "Link list \<Rightarrow> Profile" where
  "profile_part_000 links =
    \<lparr>firstName = ''Oleksii'',
     lastName = Present ''Trekhleb'',
     position = Present ''Senior Software Engineer @ Uber'',
     Profile.summary = Present
       [''Author of 180k '' @ [CHR 0xE2, CHR 0x98, CHR 0x85, CHR 0xEF, CHR 0xB8, CHR 0x8F] @
        '' js-algorithms GitHub repo'',
        ''8+ times on HackerNews homepage'',
        ''15+ years of full-stack experience''],
     avatar = Present
       \<lparr>srcPath = ''profile/avatar_500x500_v2.jpg'', caption = Some ''Oleksii Trekhleb''\<rparr>,
     location = Present
       \<lparr>Location.name =
          ''Amsterdam, The Netherlands '' @ [CHR 0xE2, CHR 0x80, CHR 0xA2] @ '' (from Ukraine)''\<rparr>,
     Profile.tags = Present [],
     socialLinks = Present links\<rparr>"

text \<open>
  The second registry (src/unnamed/part_001). \<open>lastName\<close>, \<open>location\<close> and
  \<open>socialLinks\<close> are commented out there; \<open>position\<close> is the empty string.
\<close>

definition profile_part_001 :: Profile where
  "profile_part_001 =
    \<lparr>firstName =
       ''AI'' @ [CHR 0xE6, CHR 0x97, CHR 0xB6, CHR 0xE4, CHR 0xBB, CHR 0xA3, CHR 0xE7,
        CHR 0x9A, CHR 0x84, CHR 0xE7, CHR 0xA8, CHR 0x8B, CHR 0xE5, CHR 0xBA, CHR 0x8F,
        CHR 0xE5, CHR 0x91, CHR 0x98],
     lastName = Omitted,
     position = Present '''',
     Profile.summary = Present
       [[CHR 0xE4, CHR 0xB8, CHR 0x93, CHR 0xE6, CHR 0xB3, CHR 0xA8, CHR 0xE4, CHR 0xBA,
        CHR 0x8E] @ ''AI'' @ [CHR 0xE8, CHR 0xB5, CHR 0x8B, CHR 0xE8, CHR 0x83, CHR 0xBD,
        CHR 0xE5, CHR 0x92, CHR 0x8C, CHR 0xE7, CHR 0xA8, CHR 0x8B, CHR 0xE5, CHR 0xBA,
        CHR 0x8F, CHR 0xE5, CHR 0x91, CHR 0x98, CHR 0xE4, CHR 0xBA, CHR 0x8B, CHR 0xE4,
        CHR 0xB8, CHR 0x9A, CHR 0xE5, CHR 0x8F, CHR 0x91, CHR 0xE5, CHR 0xB1, CHR 0x95,
        CHR 0xE9, CHR 0xA2, CHR 0x86, CHR 0xE5, CHR 0x9F, CHR 0x9F, CHR 0xE7, CHR 0x9A,
        CHR 0x84, CHR 0xE5, CHR 0x88, CHR 0x86, CHR 0xE4, CHR 0xBA, CHR 0xAB]],
     avatar = Present
       \<lparr>srcPath = ''profile/avatar_500x500.png'',
        caption = Some
          (''AI'' @ [CHR 0xE6, CHR 0x97, CHR 0xB6, CHR 0xE4, CHR 0xBB, CHR 0xA3, CHR 0xE7,
        CHR 0x9A, CHR 0x84, CHR 0xE7, CHR 0xA8, CHR 0x8B, CHR 0xE5, CHR 0xBA, CHR 0x8F,
        CHR 0xE5, CHR 0x91, CHR 0x98])\<rparr>,
     location = Omitted,
     Profile.tags = Present [],
     socialLinks = Omitted\<rparr>"

text \<open>
  What the registries are measured against. A field is null when it is set to \<open>null\<close>.
  It is an empty sentinel when it is set to the empty value of its type: the empty
  string, the empty list, a location with an empty name, an image with an empty path.
\<close>

definition required_populated :: "Profile \<Rightarrow> bool" where
  "required_populated p = (firstName p \<noteq> [])"

definition is_null :: "'a optional \<Rightarrow> bool" where
  "is_null f = (f = IsNull)"

definition is_omitted :: "'a optional \<Rightarrow> bool" where
  "is_omitted f = (f = Omitted)"

definition empty_string_sentinel :: "string optional \<Rightarrow> bool" where
  "empty_string_sentinel f = (f = Present [])"

definition empty_list_sentinel :: "'a list optional \<Rightarrow> bool" where
  "empty_list_sentinel f = (f = Present [])"

definition empty_image_sentinel :: "Image optional \<Rightarrow> bool" where
  "empty_image_sentinel f = (case f of Present i \<Rightarrow> srcPath i = [] | _ \<Rightarrow> False)"

definition empty_location_sentinel :: "Location optional \<Rightarrow> bool" where
  "empty_location_sentinel f = (case f of Present l \<Rightarrow> Location.name l = [] | _ \<Rightarrow> False)"

definition no_null_field :: "Profile \<Rightarrow> bool" where
  "no_null_field p =
    (\<not> is_null (lastName p) \<and>
     \<not> is_null (position p) \<and>
     \<not> is_null (Profile.summary p) \<and>
     \<not> is_null (avatar p) \<and>
     \<not> is_null (location p) \<and>
     \<not> is_null (Profile.tags p) \<and>
     \<not> is_null (socialLinks p))"

definition no_empty_sentinel :: "Profile \<Rightarrow> bool" where
  "no_empty_sentinel p =
    (\<not> empty_string_sentinel (lastName p) \<and>
     \<not> empty_string_sentinel (position p) \<and>
     \<not> empty_list_sentinel (Profile.summary p) \<and>
     \<not> empty_image_sentinel (avatar p) \<and>
     \<not> empty_location_sentinel (location p) \<and>
     \<not> empty_list_sentinel (Profile.tags p) \<and>
     \<not> empty_list_sentinel (socialLinks p))"

text \<open>
  The same without the position, the tags and the social links: the last name, the
  summary, the avatar and the location are omitted or not empty.
\<close>

definition no_empty_sentinel_beside :: "Profile \<Rightarrow> bool" where
  "no_empty_sentinel_beside p =
    (\<not> empty_string_sentinel (lastName p) \<and>
     \<not> empty_list_sentinel (Profile.summary p) \<and>
     \<not> empty_image_sentinel (avatar p) \<and>
     \<not> empty_location_sentinel (location p))"

text \<open>The names of the optional fields a profile leaves out, in the order of the type.\<close>

definition omitted_fields :: "Profile \<Rightarrow> string list" where
  "omitted_fields p =
    map fst (filter snd
      [(''lastName'', is_omitted (lastName p)),
       (''position'', is_omitted (position p)),
       (''summary'', is_omitted (Profile.summary p)),
       (''avatar'', is_omitted (avatar p)),
       (''location'', is_omitted (location p)),
       (''tags'', is_omitted (Profile.tags p)),
       (''socialLinks'', is_omitted (socialLinks p))])"

section \<open>The element tree a component returns\<close>

text \<open>
  A component returns a React node: \<open>null\<close>, a string, an array of nodes, or an element
  made by JSX. An element has a type (a host tag or a component), an optional key, its
  props in the order written, and its children in the order written. The components
  named in the JSX (\<open>Card\<close>, \<open>Tags\<close>, \<open>DateRange\<close>, ...) are not among the sources, so an
  element of such a type stays as it is: the tree is what the function returns, before
  React expands anything.
\<close>

datatype elem_type =
    Div | P | Span
  | Card | CardMedia | CardContent | CardTitle | Tags | DateRange | FluidImage | HyperLink

datatype prop_value =
    VString string
  | VTags "Tag list"
  | VImage Image
  | VLink Link
  | VUndefined

datatype node =
    Null
  | Text string
  | Array "node list"
  | Element elem_type "nat option" "(string \<times> prop_value) list" "node list"

section \<open>ProjectPreview (src/components/elements/ProjectPreview.tsx)\<close>

text \<open>
  Modelled from the spec: the type \<open>Project\<close> (\<open>../../types/Project\<close>) is imported by the
  component and not among the sources. The spec's data model gives it a name, summary
  lines, an optional cover, optional tags, a start date and an optional end date. The
  component tests \<open>project.summary\<close> for presence and types a summary line as
  \<open>string | null\<close>, so the summary is an optional list of optional strings here; the
  spec's projects are those whose summary is \<open>Some\<close> list of \<open>Some\<close> strings. A record is
  extensible, as a TypeScript object type is: a project may carry more fields than the
  six below (the type variable \<open>'a\<close> of \<open>'a Project_scheme\<close>).
\<close>

record Project =
  name :: string
  summary :: "string option list option"
  cover :: "Image option"
  tags :: "Tag list option"
  startDate :: DateString
  endDate :: "DateString option"

record 'p ProjectPreviewProps =
  project :: "'p option"

text \<open>
  The constants of the function body, one definition each. A condition of the source
  tests a value for truthiness; an array or an object is truthy whatever it holds, the
  empty array too, so \<open>project.tags ? a : b\<close> takes \<open>a\<close> exactly when the field is
  present.
\<close>

definition projectName :: "'a Project_scheme \<Rightarrow> node" where
  "projectName proj = Element CardTitle None [] [Text (Project.name proj)]"

definition projectTags :: "'a Project_scheme \<Rightarrow> node" where
  "projectTags proj =
    (case Project.tags proj of
       Some ts \<Rightarrow> Element Div None [] [Element Tags None [(''tags'', VTags ts)] []]
     | None \<Rightarrow> Null)"

definition projectDates :: "'a Project_scheme \<Rightarrow> node" where
  "projectDates proj =
    Element Div None [(''className'', VString ''mb-3'')]
      [Element DateRange None
         [(''startDate'', VString (startDate proj)),
          (''endDate'', (case endDate proj of Some d \<Rightarrow> VString d | None \<Rightarrow> VUndefined)),
          (''className'', VString ''text-sm text-gray-600 font-light'')]
         []]"

definition projectSummaryLines :: "'a Project_scheme \<Rightarrow> node list option" where
  "projectSummaryLines proj =
    (case Project.summary proj of
       Some lines \<Rightarrow>
         Some (map (\<lambda>(index, summaryLine).
                 Element P (Some index) []
                   [case summaryLine of Some s \<Rightarrow> Text s | None \<Rightarrow> Null])
               (enumerate 0 lines))
     | None \<Rightarrow> None)"

definition projectSummary :: "'a Project_scheme \<Rightarrow> node" where
  "projectSummary proj =
    (case projectSummaryLines proj of
       Some ps \<Rightarrow> Element Div None [(''className'', VString ''mb-3 font-light'')] [Array ps]
     | None \<Rightarrow> Null)"

definition projectCover :: "'a Project_scheme \<Rightarrow> node" where
  "projectCover proj =
    (case cover proj of
       Some img \<Rightarrow> Element FluidImage None [(''image'', VImage img)] []
     | None \<Rightarrow> Null)"

definition ProjectPreview :: "'a Project_scheme ProjectPreviewProps \<Rightarrow> node" where
  "ProjectPreview props =
    (case project props of
       None \<Rightarrow> Null
     | Some proj \<Rightarrow>
         Element Card None []
           [Element CardMedia None [] [projectCover proj],
            Element CardContent None []
              [projectName proj, projectSummary proj, projectTags proj, projectDates proj]])"

section \<open>Greeting (the second document of src/types/Publication.ts)\<close>

text \<open>
  Modelled from the spec: the constant \<open>routes\<close> (\<open>../../constants/routes\<close>) is not among
  the sources; the component reads \<open>routes.projects.path\<close> and \<open>routes.blog.path\<close>, so
  it is a parameter with these two paths.
\<close>

record Route =
  path :: string

record Routes =
  projects :: Route
  blog :: Route

text \<open>
  The text of the paragraph. JSX trims each line of a text and joins the lines with one
  space.
\<close>

definition Greeting_text :: string where
  "Greeting_text =
     [CHR 0xE5, CHR 0xA4, CHR 0xA7, CHR 0xE6, CHR 0xA8, CHR 0xA1, CHR 0xE5, CHR 0x9E,
     CHR 0x8B, CHR 0xE7, CHR 0x9A, CHR 0x84, CHR 0xE5, CHR 0x87, CHR 0xBA, CHR 0xE7,
     CHR 0x8E, CHR 0xB0, CHR 0xE8, CHR 0xAE, CHR 0xA9, CHR 0xE6, CHR 0x88, CHR 0x91,
     CHR 0xE4, CHR 0xBB, CHR 0xAC, CHR 0xE8, CHR 0xBF, CHR 0x9B, CHR 0xE5, CHR 0x85,
     CHR 0xA5, CHR 0xE4, CHR 0xBA, CHR 0x86] @ ''AI'' @ [CHR 0xE6, CHR 0x97, CHR 0xB6,
     CHR 0xE4, CHR 0xBB, CHR 0xA3, CHR 0xEF, CHR 0xBC, CHR 0x8C, CHR 0xE4, CHR 0xB9,
     CHR 0x9F, CHR 0xE7, CHR 0xBB, CHR 0x99, CHR 0xE7, CHR 0xA8, CHR 0x8B, CHR 0xE5,
     CHR 0xBA, CHR 0x8F, CHR 0xE5, CHR 0x91, CHR 0x98, CHR 0xE8, CHR 0xBF, CHR 0x99,
     CHR 0xE4, CHR 0xB8, CHR 0x80, CHR 0xE8, CHR 0x81, CHR 0x8C, CHR 0xE4, CHR 0xB8,
     CHR 0x9A, CHR 0xE5, CHR 0xB8, CHR 0xA6, CHR 0xE6, CHR 0x9D, CHR 0xA5, CHR 0xE4,
     CHR 0xBA, CHR 0x86, CHR 0xE6, CHR 0x96, CHR 0xB0, CHR 0xE7, CHR 0x9A, CHR 0x84,
     CHR 0xE6, CHR 0x9C, CHR 0xBA, CHR 0xE9, CHR 0x81, CHR 0x87, CHR 0xE5, CHR 0x92,
     CHR 0x8C, CHR 0xE6, CHR 0x8C, CHR 0x91, CHR 0xE6, CHR 0x88, CHR 0x98, CHR 0xE3,
     CHR 0x80, CHR 0x82] @ '' '' @ [CHR 0xE6, CHR 0x9C, CHR 0xAC, CHR 0xE7, CHR 0xBD,
     CHR 0x91, CHR 0xE7, CHR 0xAB, CHR 0x99, CHR 0xE8, CHR 0x81, CHR 0x9A, CHR 0xE7,
     CHR 0x84, CHR 0xA6, CHR 0xE4, CHR 0xBA, CHR 0x8E] @ ''AI'' @ [CHR 0xE8, CHR 0xB5,
     CHR 0x8B, CHR 0xE8, CHR 0x83, CHR 0xBD, CHR 0xEF, CHR 0xBC, CHR 0x8C, CHR 0xE8,
     CHR 0xB7, CHR 0x9F, CHR 0xE5, CHR 0xA4, CHR 0xA7, CHR 0xE5, CHR 0xAE, CHR 0xB6,
     CHR 0xE6, CHR 0x8E, CHR 0xA2, CHR 0xE8, CHR 0xAE, CHR 0xA8] @ ''AI'' @ [CHR 0xE6,
     CHR 0x97, CHR 0xB6, CHR 0xE4, CHR 0xBB, CHR 0xA3, CHR 0xE7, CHR 0x9A, CHR 0x84,
     CHR 0xE7, CHR 0xA8, CHR 0x8B, CHR 0xE5, CHR 0xBA, CHR 0x8F, CHR 0xE5, CHR 0x91,
     CHR 0x98, CHR 0xE4, CHR 0xBB, CHR 0xAC, CHR 0xE8, CHR 0xAF, CHR 0xA5, CHR 0xE5,
     CHR 0xA6, CHR 0x82, CHR 0xE6, CHR 0x8A, CHR 0x93, CHR 0xE4, CHR 0xBD, CHR 0x8F,
     CHR 0xE8, CHR 0xBF, CHR 0x99, CHR 0xE4, CHR 0xB8, CHR 0x80, CHR 0xE5, CHR 0x8E,
     CHR 0x86, CHR 0xE5, CHR 0x8F, CHR 0xB2, CHR 0xE6, CHR 0x9C, CHR 0xBA, CHR 0xE9,
     CHR 0x81, CHR 0x87, CHR 0xEF, CHR 0xBC, CHR 0x8C, CHR 0xE5, CHR 0x9C, CHR 0xA8,
     CHR 0xE8, CHR 0xBF, CHR 0x99, CHR 0xE4, CHR 0xB8, CHR 0x80, CHR 0xE8, CHR 0xBD,
     CHR 0xAE, CHR 0xE7, CHR 0x9A, CHR 0x84, CHR 0xE6, CHR 0x8A, CHR 0x80, CHR 0xE6,
     CHR 0x9C, CHR 0xAF, CHR 0xE9, CHR 0x9D, CHR 0xA9, CHR 0xE5, CHR 0x91, CHR 0xBD,
     CHR 0xE4, CHR 0xB8, CHR 0xAD, CHR 0xE6, CHR 0x89, CHR 0xBE, CHR 0xE5, CHR 0x88,
     CHR 0xB0, CHR 0xE8, CHR 0x87, CHR 0xAA, CHR 0xE5, CHR 0xB7, CHR 0xB1, CHR 0xE7,
     CHR 0x9A, CHR 0x84, CHR 0xE4, CHR 0xBD, CHR 0x8D, CHR 0xE7, CHR 0xBD, CHR 0xAE,
     CHR 0xEF, CHR 0xBC, CHR 0x8C, CHR 0xE5, CHR 0xAE, CHR 0x9E, CHR 0xE7, CHR 0x8E,
     CHR 0xB0, CHR 0xE6, CHR 0x9B, CHR 0xB4, CHR 0xE5, CHR 0xA5, CHR 0xBD, CHR 0xE7,
     CHR 0x9A, CHR 0x84, CHR 0xE5, CHR 0x8F, CHR 0x91, CHR 0xE5, CHR 0xB1, CHR 0x95,
     CHR 0xE3, CHR 0x80, CHR 0x82]"

definition Greeting :: "Routes \<Rightarrow> node" where
  "Greeting routes =
    (let projectsLink = \<lparr>url = path (projects routes) @ ''/'', label = None\<rparr>;
         blogLink = \<lparr>url = path (blog routes) @ ''/'', label = None\<rparr>;
         projectsLinkElement =
           Element Span None [(''className'', VString ''inline-block'')]
             [Element HyperLink None
                [(''link'', VLink projectsLink),
                 (''className'', VString ''underline underline-offset-2'')]
                [Text ''projects'']];
         blogLinkElement =
           Element Span None [(''className'', VString ''inline-block'')]
             [Element HyperLink None
                [(''link'', VLink blogLink),
                 (''className'', VString ''underline underline-offset-2'')]
                [Text ''articles'']]
     in Element P None [(''className'', VString ''font-light'')] [Text Greeting_text])"

section \<open>Reading a returned tree\<close>

text \<open>
  Every node of a tree, the node itself first, then the nodes of its children from left
  to right (preorder).
\<close>

primrec nodes :: "node \<Rightarrow> node list" where
  "nodes Null = [Null]"
| "nodes (Text s) = [Text s]"
| "nodes (Array ns) = Array ns # concat (map nodes ns)"
| "nodes (Element t k ps cs) = Element t k ps cs # concat (map nodes cs)"

definition elem_type_of :: "node \<Rightarrow> elem_type option" where
  "elem_type_of n = (case n of Element t k ps cs \<Rightarrow> Some t | _ \<Rightarrow> None)"

definition children :: "node \<Rightarrow> node list" where
  "children n = (case n of Element t k ps cs \<Rightarrow> cs | _ \<Rightarrow> [])"

text \<open>React renders nothing for a \<open>null\<close> child: what a slot shows is its other children.\<close>

definition rendered :: "node list \<Rightarrow> node list" where
  "rendered cs = filter (\<lambda>c. c \<noteq> Null) cs"

text \<open>
  The sections of a card, told apart by their shape: the title is a \<open>CardTitle\<close>
  element; a summary section is a \<open>div\<close> around an array of nodes; a tags section is a
  \<open>div\<close> around a \<open>Tags\<close> element; a date-range section is a \<open>div\<close> around a \<open>DateRange\<close>
  element; a paragraph is a \<open>p\<close> element.
\<close>

definition is_title_section :: "node \<Rightarrow> bool" where
  "is_title_section n = (elem_type_of n = Some CardTitle)"

definition is_paragraph :: "node \<Rightarrow> bool" where
  "is_paragraph n = (elem_type_of n = Some P)"

definition is_summary_section :: "node \<Rightarrow> bool" where
  "is_summary_section n =
    (elem_type_of n = Some Div \<and>
     (case children n of [Array ps] \<Rightarrow> True | _ \<Rightarrow> False))"

definition is_tags_section :: "node \<Rightarrow> bool" where
  "is_tags_section n =
    (elem_type_of n = Some Div \<and>
     (case children n of [c] \<Rightarrow> elem_type_of c = Some Tags | _ \<Rightarrow> False))"

definition is_date_range_section :: "node \<Rightarrow> bool" where
  "is_date_range_section n =
    (elem_type_of n = Some Div \<and>
     (case children n of [c] \<Rightarrow> elem_type_of c = Some DateRange | _ \<Rightarrow> False))"

definition sections :: "(node \<Rightarrow> bool) \<Rightarrow> node \<Rightarrow> node list" where
  "sections is_section out = filter is_section (nodes out)"

definition has_section :: "(node \<Rightarrow> bool) \<Rightarrow> node \<Rightarrow> bool" where
  "has_section is_section out = (sections is_section out \<noteq> [])"

datatype section_kind = TitleSection | SummarySection | TagsSection | DateRangeSection

definition section_kind_of :: "node \<Rightarrow> section_kind option" where
  "section_kind_of n =
    (if is_title_section n then Some TitleSection
     else if is_summary_section n then Some SummarySection
     else if is_tags_section n then Some TagsSection
     else if is_date_range_section n then Some DateRangeSection
     else None)"

text \<open>An optional list field that is present and holds at least one element.\<close>

definition nonempty_list_field :: "'a list option \<Rightarrow> bool" where
  "nonempty_list_field f = (case f of Some xs \<Rightarrow> xs \<noteq> [] | None \<Rightarrow> False)"

text \<open>
  The project of the spec's scenario: name \<open>Demo\<close>, one summary line, no cover, no tags,
  a start date and no end date.
\<close>

definition demo_project :: Project where
  "demo_project =
    \<lparr>name = ''Demo'', summary = Some [Some ''One line.''], cover = None, tags = None,
     startDate = ''2023-01-01'', endDate = None\<rparr>"

section \<open>Facts about the tree of a project card\<close>

lemmas preview_defs =
  ProjectPreview_def projectName_def projectTags_def projectDates_def projectSummary_def
  projectCover_def

lemmas read_defs =
  is_title_section_def is_paragraph_def is_summary_section_def is_tags_section_def
  is_date_range_section_def elem_type_of_def children_def

lemma projectSummaryLines_None:
  "(projectSummaryLines proj = None) = (Project.summary proj = None)"
  by (simp add: projectSummaryLines_def split: option.splits)

text \<open>Below the summary lines there are only paragraphs, strings and \<open>null\<close>.\<close>

lemma line_nodes_types:
  "n \<in> set (concat (map nodes (map (\<lambda>(index, summaryLine).
        Element P (Some index) [] [case summaryLine of Some s \<Rightarrow> Text s | None \<Rightarrow> Null])
      (enumerate i lines)))) \<Longrightarrow>
   elem_type_of n = Some P \<or> elem_type_of n = None"
  by (induction lines arbitrary: i) (auto simp: elem_type_of_def split: option.splits)

lemma summary_line_nodes_types:
  assumes "projectSummaryLines proj = Some ps" and "n \<in> set (concat (map nodes ps))"
  shows "elem_type_of n = Some P \<or> elem_type_of n = None"
proof (cases "Project.summary proj")
  case None
  with assms(1) show ?thesis
    by (simp add: projectSummaryLines_def)
next
  case (Some lines)
  with assms(1) have "ps = map (\<lambda>(index, summaryLine).
        Element P (Some index) [] [case summaryLine of Some s \<Rightarrow> Text s | None \<Rightarrow> Null])
      (enumerate 0 lines)"
    by (simp add: projectSummaryLines_def)
  with assms(2) show ?thesis
    by (simp only: line_nodes_types)
qed

lemma no_section_in_summary_lines:
  assumes "projectSummaryLines proj = Some ps"
    and "\<And>n. f n \<Longrightarrow> elem_type_of n = Some Div \<or> elem_type_of n = Some CardTitle"
  shows "filter f (concat (map nodes ps)) = []"
proof -
  have "\<not> f n" if "n \<in> set (concat (map nodes ps))" for n
    using summary_line_nodes_types [OF assms(1) that] assms(2) [of n] by auto
  then show ?thesis
    unfolding filter_empty_conv by blast
qed

lemma no_tags_section_in_summary_lines:
  "projectSummaryLines proj = Some ps \<Longrightarrow>
   filter is_tags_section (concat (map nodes ps)) = []"
  by (rule no_section_in_summary_lines) (auto simp: is_tags_section_def)

lemma no_summary_section_in_summary_lines:
  "projectSummaryLines proj = Some ps \<Longrightarrow>
   filter is_summary_section (concat (map nodes ps)) = []"
  by (rule no_section_in_summary_lines) (auto simp: is_summary_section_def)

lemma no_title_section_in_summary_lines:
  "projectSummaryLines proj = Some ps \<Longrightarrow>
   filter is_title_section (concat (map nodes ps)) = []"
  by (rule no_section_in_summary_lines) (auto simp: is_title_section_def)

lemma no_date_range_section_in_summary_lines:
  "projectSummaryLines proj = Some ps \<Longrightarrow>
   filter is_date_range_section (concat (map nodes ps)) = []"
  by (rule no_section_in_summary_lines) (auto simp: is_date_range_section_def)

lemmas no_section_in_lines =
  no_tags_section_in_summary_lines no_summary_section_in_summary_lines
  no_title_section_in_summary_lines no_date_range_section_in_summary_lines

text \<open>The paragraphs found in the nodes of the summary lines, read from left to right.\<close>

lemma paragraphs_of_lines:
  "map children (filter is_paragraph (concat (map nodes (map (\<lambda>(index, summaryLine).
        Element P (Some index) [] [case summaryLine of Some s \<Rightarrow> Text s | None \<Rightarrow> Null])
      (enumerate i lines))))) =
   map (\<lambda>summaryLine. [case summaryLine of Some s \<Rightarrow> Text s | None \<Rightarrow> Null]) lines"
  by (induction lines arbitrary: i) (auto simp: read_defs split: option.splits)

section \<open>Null projects\<close>

text \<open>
  C1. For a null project the component returns \<open>null\<close>: no tree, no error (the early
  return comes before any field is read) and no placeholder.
\<close>

theorem ProjectPreview_null:
  "ProjectPreview \<lparr>project = None\<rparr> = Null"
  by (simp add: ProjectPreview_def)

section \<open>The sections of a card\<close>

text \<open>
  C2, as the code has it. For every non-null project the returned tree holds a tags
  section exactly when the \<open>tags\<close> field is present. The condition \<open>project?.tags\<close> is
  a truthiness test, and an empty array is truthy: a present and empty list gets its
  \<open>div\<close> around a \<open>Tags\<close> element like any other.
\<close>

theorem ProjectPreview_tags_section_iff_present:
  "has_section is_tags_section (ProjectPreview \<lparr>project = Some proj\<rparr>) =
   (Project.tags proj \<noteq> None)"
  by (cases "projectSummaryLines proj"; cases "Project.tags proj"; cases "cover proj")
     (simp_all add: has_section_def sections_def preview_defs read_defs no_section_in_lines)

text \<open>
  C2 as stated fails: the scenario's project with \<open>tags: []\<close> has a tags section, and
  its tags are not a non-empty list.
\<close>

theorem ProjectPreview_empty_tags_counterexample:
  "has_section is_tags_section
     (ProjectPreview \<lparr>project = Some (demo_project\<lparr>tags := Some []\<rparr>)\<rparr>) \<and>
   \<not> nonempty_list_field (Project.tags (demo_project\<lparr>tags := Some []\<rparr>))"
  by (simp add: has_section_def sections_def preview_defs projectSummaryLines_def
      enumerate_eq_zip read_defs demo_project_def nonempty_list_field_def)

text \<open>
  C3, as the code has it. For every non-null project the returned tree holds a summary
  section exactly when the \<open>summary\<close> field is present. \<open>project.summary\<close> and
  \<open>projectSummaryLines\<close> are tested for truthiness, and the empty array is truthy: an
  empty summary list gets a summary \<open>div\<close> around an empty array of paragraphs.
\<close>

theorem ProjectPreview_summary_section_iff_present:
  "has_section is_summary_section (ProjectPreview \<lparr>project = Some proj\<rparr>) =
   (Project.summary proj \<noteq> None)"
  by (cases "projectSummaryLines proj"; cases "Project.tags proj"; cases "cover proj")
     (simp_all add: has_section_def sections_def preview_defs read_defs no_section_in_lines
        projectSummaryLines_None [symmetric])

text \<open>
  C3 as stated fails: the scenario's project with \<open>summary: []\<close> has a summary section,
  the \<open>div\<close> around the empty array, and its summary is not a non-empty list.
\<close>

theorem ProjectPreview_empty_summary_counterexample:
  "sections is_summary_section
     (ProjectPreview \<lparr>project = Some (demo_project\<lparr>summary := Some []\<rparr>)\<rparr>) =
     [Element Div None [(''className'', VString ''mb-3 font-light'')] [Array []]] \<and>
   \<not> nonempty_list_field (Project.summary (demo_project\<lparr>summary := Some []\<rparr>))"
  by (simp add: sections_def preview_defs projectSummaryLines_def
      enumerate_eq_zip read_defs demo_project_def nonempty_list_field_def)

text \<open>
  C4. For every non-null project the returned tree holds exactly one title section, the
  \<open>CardTitle\<close> around the project's name, and exactly one date-range section, the \<open>div\<close>
  around a \<open>DateRange\<close> that is given the start date and the end date (\<open>undefined\<close> when
  there is none), whatever the optional fields are.
\<close>

theorem ProjectPreview_title_and_dates:
  "sections is_title_section (ProjectPreview \<lparr>project = Some proj\<rparr>) =
     [Element CardTitle None [] [Text (Project.name proj)]] \<and>
   sections is_date_range_section (ProjectPreview \<lparr>project = Some proj\<rparr>) =
     [Element Div None [(''className'', VString ''mb-3'')]
        [Element DateRange None
           [(''startDate'', VString (startDate proj)),
            (''endDate'', (case endDate proj of Some d \<Rightarrow> VString d | None \<Rightarrow> VUndefined)),
            (''className'', VString ''text-sm text-gray-600 font-light'')]
           []]]"
  by (cases "projectSummaryLines proj"; cases "Project.tags proj"; cases "cover proj")
     (simp_all add: sections_def preview_defs read_defs no_section_in_lines)

section \<open>Order\<close>

text \<open>
  C6. For every non-null project with summary lines, the paragraphs of the returned
  tree, read from left to right, hold the lines in the order of the list: one paragraph
  a line, its only child the line (\<open>null\<close> for a null line). For the lines \<open>a\<close>, \<open>b\<close>,
  \<open>c\<close> the paragraphs are those of \<open>a\<close>, \<open>b\<close>, \<open>c\<close> in this order. The paragraphs are
  computed from the argument at every call.
\<close>

theorem ProjectPreview_summary_order:
  "map children (sections is_paragraph
      (ProjectPreview \<lparr>project = Some (proj\<lparr>summary := Some lines\<rparr>)\<rparr>)) =
     map (\<lambda>summaryLine. [case summaryLine of Some s \<Rightarrow> Text s | None \<Rightarrow> Null]) lines \<and>
   map children (sections is_paragraph
      (ProjectPreview
         \<lparr>project = Some (proj\<lparr>summary := Some [Some ''a'', Some ''b'', Some ''c'']\<rparr>)\<rparr>)) =
     [[Text ''a''], [Text ''b''], [Text ''c'']]"
proof -
  have "map children (sections is_paragraph
         (ProjectPreview \<lparr>project = Some (proj\<lparr>summary := Some ls\<rparr>)\<rparr>)) =
       map (\<lambda>summaryLine. [case summaryLine of Some s \<Rightarrow> Text s | None \<Rightarrow> Null]) ls" for ls
    using paragraphs_of_lines [of 0 ls]
    by (cases "Project.tags proj"; cases "cover proj")
       (simp_all add: sections_def preview_defs projectSummaryLines_def is_paragraph_def
          elem_type_of_def)
  from this [of lines] this [of "[Some ''a'', Some ''b'', Some ''c'']"] show ?thesis
    by simp
qed

text \<open>
  C10. For every non-null project the card has two slots in this order, the media slot
  and the content slot. The media slot shows the cover when there is one and nothing
  otherwise. The content slot shows the title first, then the summary section when
  there is one, then the tags section when there is one, and the date range last.
\<close>

theorem ProjectPreview_section_order:
  "\<exists>media content.
     ProjectPreview \<lparr>project = Some proj\<rparr> =
       Element Card None []
         [Element CardMedia None [] media, Element CardContent None [] content] \<and>
     rendered media =
       (case cover proj of
          Some img \<Rightarrow> [Element FluidImage None [(''image'', VImage img)] []]
        | None \<Rightarrow> []) \<and>
     map section_kind_of (rendered content) =
       [Some TitleSection]
       @ (if Project.summary proj = None then [] else [Some SummarySection])
       @ (if Project.tags proj = None then [] else [Some TagsSection])
       @ [Some DateRangeSection]"
  by (cases "projectSummaryLines proj"; cases "Project.tags proj"; cases "cover proj")
     (simp_all add: preview_defs rendered_def section_kind_of_def read_defs
        projectSummaryLines_None [symmetric])

section \<open>Publishers\<close>



section \<open>The profile registries\<close>

text \<open>
  C8, as the registries have it. In both registries the first name is populated, no
  optional field is null, and the last name, the summary, the avatar and the location
  are omitted or hold a non-empty value. The first registry sets every optional field,
  the social links to the imported list and the position to a non-empty string; the
  second leaves out the last name, the location and the social links, and nothing
  else. The position of the second registry is the empty string, and the tags of both
  are the empty list.
\<close>

theorem profile_registries_omission:
  "required_populated (profile_part_000 links) \<and>
   no_null_field (profile_part_000 links) \<and>
   no_empty_sentinel_beside (profile_part_000 links) \<and>
   omitted_fields (profile_part_000 links) = [] \<and>
   socialLinks (profile_part_000 links) = Present links \<and>
   position (profile_part_000 links) = Present ''Senior Software Engineer @ Uber'' \<and>
   Profile.tags (profile_part_000 links) = Present [] \<and>
   required_populated profile_part_001 \<and>
   no_null_field profile_part_001 \<and>
   no_empty_sentinel_beside profile_part_001 \<and>
   omitted_fields profile_part_001 = [''lastName'', ''location'', ''socialLinks''] \<and>
   position profile_part_001 = Present [] \<and>
   Profile.tags profile_part_001 = Present []"
  by (simp add: profile_part_000_def profile_part_001_def required_populated_def
      no_null_field_def no_empty_sentinel_beside_def omitted_fields_def is_null_def
      is_omitted_def empty_string_sentinel_def empty_list_sentinel_def
      empty_image_sentinel_def empty_location_sentinel_def)

text \<open>
  C8 as stated fails at the second registry: its position is set, to the empty string
  (and its tags are set, to the empty list).
\<close>

theorem profile_part_001_empty_position_counterexample:
  "\<not> (required_populated profile_part_001 \<and>
      no_null_field profile_part_001 \<and>
      no_empty_sentinel profile_part_001)"
  by (simp add: no_empty_sentinel_def profile_part_001_def empty_string_sentinel_def)

section \<open>Greeting\<close>

text \<open>
  C9. The component takes no props. Whatever the routes are, it returns the same
  paragraph: the tree has two nodes, the paragraph and its text, so neither the span of
  the projects link nor the span of the articles link built in the body is part of it.
\<close>

theorem Greeting_constant:
  "nodes (Greeting routes) =
     [Element P None [(''className'', VString ''font-light'')] [Text Greeting_text],
      Text Greeting_text] \<and>
   Greeting routes = Greeting routes'"
  by (simp add: Greeting_def)

end
